theory Spec2Isabelle
  imports Complex_Main "HOL-Library.Sublist"
begin

section \<open>The Trading212 position exporter (tomas\_per)\<close>

text \<open>
  The development embeds \<^verbatim>\<open>src/schema.py\<close>, \<^verbatim>\<open>src/clients/t212.py\<close>,
  \<^verbatim>\<open>src/clients/influxdb.py\<close> and \<^verbatim>\<open>main.py\<close>.  Python strings are lists of
  characters (ASCII text), Python floats are reals (NaN and the infinities are outside
  the model), exceptions are values of the type \<open>exn\<close>, and the effects of the program
  (network client, logger, clock, database) are events appended to a trace.
\<close>

subsection \<open>Strings\<close>

text \<open>
  \<^verbatim>\<open>str.upper\<close> on ASCII text: a lower-case letter (codes 97 to 122) loses bit 5,
  every other character is unchanged.
\<close>

definition upper_chr :: "char \<Rightarrow> char" where
  "upper_chr c =
     (case c of Char b0 b1 b2 b3 b4 b5 b6 b7 \<Rightarrow>
        if (97::nat) \<le> of_char c \<and> (of_char c :: nat) \<le> 122
        then Char b0 b1 b2 b3 b4 False b6 b7 else c)"

definition str_upper :: "string \<Rightarrow> string" where
  "str_upper s = map upper_chr s"

text \<open>
  \<^verbatim>\<open>s.partition(sep)\<close>: the text before the first occurrence of \<open>sep\<close>, \<open>sep\<close>
  itself and the text after it; when \<open>sep\<close> does not occur, \<open>s\<close> and two empty strings.
\<close>

fun find_sep :: "string \<Rightarrow> string \<Rightarrow> (string \<times> string) option" where
  "find_sep sep [] = (if sep = [] then Some ([], []) else None)"
| "find_sep sep (c # cs) =
     (if prefix sep (c # cs) then Some ([], drop (length sep) (c # cs))
      else map_option (\<lambda>(before, after). (c # before, after)) (find_sep sep cs))"

definition str_partition :: "string \<Rightarrow> string \<Rightarrow> string \<times> string \<times> string" where
  "str_partition s sep =
     (case find_sep sep s of
        Some (before, after) \<Rightarrow> (before, sep, after)
      | None \<Rightarrow> (s, [], []))"

subsection \<open>Values decoded from JSON, and exceptions\<close>

datatype json =
    JNull
  | JBool bool
  | JInt int
  | JFloat real
  | JStr string
  | JArr "json list"
  | JObj "(string \<times> json) list"

text \<open>
  One entry of a pydantic \<^verbatim>\<open>ValidationError\<close>: the location (index in the list, key of
  the field as the input names it) and the kind of error.
\<close>

datatype err_type =
  Missing | String_type | Float_type | Datetime_type | Model_type | List_type | Frozen_instance

datatype loc_item = Index nat | Key string

type_synonym error_detail = "loc_item list \<times> err_type"

text \<open>
  The exceptions of the program.  \<open>HTTPStatusError\<close> (with the status code) and
  \<open>TransportError\<close> (a failed request, with the name of its class) are the two families
  below \<^verbatim>\<open>httpx.HTTPError\<close>; \<open>OtherError\<close> is any exception that is no
  \<^verbatim>\<open>HTTPError\<close>; \<open>APICallFailedException\<close> carries its cause
  (\<^verbatim>\<open>raise ... from exc\<close>); \<open>UnboundLocalError\<close> carries the name of the variable and
  the exception that was being handled when it was raised.
\<close>

datatype exn =
    HTTPStatusError nat
  | TransportError string
  | OtherError string
  | JSONDecodeError
  | AttributeError string
  | ValueError string
  | ValidationError "error_detail list"
  | UnboundLocalError string exn
  | APICallFailedException exn

fun is_HTTPError :: "exn \<Rightarrow> bool" where
  "is_HTTPError (HTTPStatusError _) = True"
| "is_HTTPError (TransportError _) = True"
| "is_HTTPError _ = False"

subsection \<open>The ticker validator of \<^verbatim>\<open>Position\<close>\<close>

text \<open>
  \<^verbatim>\<open>validate_ticker\<close> runs in mode \<^verbatim>\<open>"before"\<close>: it receives the raw value.  Only a
  string has a \<^verbatim>\<open>partition\<close> method; on any other JSON value the attribute lookup
  raises \<^verbatim>\<open>AttributeError\<close>.
\<close>

fun validate_ticker :: "json \<Rightarrow> exn + string" where
  "validate_ticker (JStr v) =
     (case str_partition v ''_'' of (ticker, _, _) \<Rightarrow> Inr (str_upper ticker))"
| "validate_ticker _ = Inl (AttributeError ''partition'')"


subsection \<open>The model \<^verbatim>\<open>Position\<close>\<close>

text \<open>
  A \<^verbatim>\<open>datetime\<close>: the instant in microseconds since the epoch and, for an aware value,
  the offset of its time zone in minutes.
\<close>

datatype datetime = Datetime int "int option"

record position =
  ticker :: string
  quantity :: real
  average_price :: real
  current_price :: real
  profit :: real
  forex_movement_impact :: "real option"
  initial_fill_date :: datetime
  frontend :: string
  max_buy :: real
  max_sell :: real
  pie_quantity :: real

definition make_position ::
  "string \<Rightarrow> real \<Rightarrow> real \<Rightarrow> real \<Rightarrow> real \<Rightarrow> real option \<Rightarrow> datetime \<Rightarrow> string \<Rightarrow> real \<Rightarrow> real \<Rightarrow> real
     \<Rightarrow> position" where
  "make_position t q ap cp pr fx d fe mb ms pq =
     \<lparr>ticker = t, quantity = q, average_price = ap, current_price = cp, profit = pr,
      forex_movement_impact = fx, initial_fill_date = d, frontend = fe, max_buy = mb,
      max_sell = ms, pie_quantity = pq\<rparr>"

text \<open>
  \<^verbatim>\<open>pydantic.alias_generators.to_camel\<close> on a snake-case identifier: every underscore
  is dropped and the character after it is upper-cased.
\<close>

fun to_camel :: "string \<Rightarrow> string" where
  "to_camel [] = []"
| "to_camel [c] = (if c = CHR ''_'' then [] else [c])"
| "to_camel (c # d # ds) =
     (if c = CHR ''_'' then upper_chr d # to_camel ds else c # to_camel (d # ds))"

text \<open>
  \<^verbatim>\<open>model_config\<close>.  The source sets \<^verbatim>\<open>alias_generator\<close> and \<^verbatim>\<open>populate_by_name\<close>;
  \<^verbatim>\<open>frozen\<close> is not set there and has pydantic's default.
\<close>

record config_dict =
  alias_generator :: "string \<Rightarrow> string"
  populate_by_name :: bool
  frozen :: bool

definition model_config :: config_dict where
  "model_config = \<lparr>alias_generator = to_camel, populate_by_name = True, frozen = False\<rparr>"

text \<open>The alias of a field: the one given to \<^verbatim>\<open>Field(alias=...)\<close>, else the generated one.\<close>

definition field_alias :: "string \<Rightarrow> string option \<Rightarrow> string" where
  "field_alias name explicit =
     (case explicit of Some a \<Rightarrow> a | None \<Rightarrow> alias_generator model_config name)"

text \<open>
  A field is looked up in the raw record under its alias and, with
  \<^verbatim>\<open>populate_by_name\<close>, under its own name; the result is the key found and its value.
\<close>

definition lookup_field :: "(string \<times> json) list \<Rightarrow> string \<Rightarrow> string \<Rightarrow> (string \<times> json) option" where
  "lookup_field raw alias name =
     (case map_of raw alias of
        Some v \<Rightarrow> Some (alias, v)
      | None \<Rightarrow>
          (if populate_by_name model_config
           then (case map_of raw name of Some v \<Rightarrow> Some (name, v) | None \<Rightarrow> None)
           else None))"

text \<open>
  The coercions of pydantic to \<^verbatim>\<open>float\<close> and to \<^verbatim>\<open>datetime\<close> are library functions;
  the model takes them as parameters.  \<^verbatim>\<open>None\<close> is accepted by a type that names it and
  by no other: the validators of \<^verbatim>\<open>float\<close>, \<^verbatim>\<open>datetime\<close> and \<^verbatim>\<open>str\<close> refuse it,
  and a field of type \<^verbatim>\<open>float | None\<close> accepts \<^verbatim>\<open>None\<close> and whatever \<^verbatim>\<open>float\<close>
  accepts.  A \<^verbatim>\<open>str\<close> field accepts a string only.
\<close>

record coercers =
  to_float :: "json \<Rightarrow> real option"
  to_datetime :: "json \<Rightarrow> datetime option"

definition to_str :: "json \<Rightarrow> string option" where
  "to_str v = (case v of JStr s \<Rightarrow> Some s | _ \<Rightarrow> None)"

definition float_validator :: "coercers \<Rightarrow> json \<Rightarrow> real option" where
  "float_validator c v = (case v of JNull \<Rightarrow> None | _ \<Rightarrow> to_float c v)"

definition datetime_validator :: "coercers \<Rightarrow> json \<Rightarrow> datetime option" where
  "datetime_validator c v = (case v of JNull \<Rightarrow> None | _ \<Rightarrow> to_datetime c v)"

definition to_optional_float :: "coercers \<Rightarrow> json \<Rightarrow> real option option" where
  "to_optional_float c v =
     (case v of JNull \<Rightarrow> Some None | _ \<Rightarrow> map_option Some (float_validator c v))"

text \<open>
  Validation of one field: a field with no default is required, so a record with neither
  key gives the error \<open>Missing\<close> at the alias; a value that does not coerce gives the
  error of the field's type at the key found.
\<close>

definition validate_field ::
  "(string \<times> json) list \<Rightarrow> string \<Rightarrow> string option \<Rightarrow> (json \<Rightarrow> 'a option) \<Rightarrow> err_type
     \<Rightarrow> error_detail list + 'a" where
  "validate_field raw name explicit coerce ety =
     (case lookup_field raw (field_alias name explicit) name of
        None \<Rightarrow> Inl [([Key (field_alias name explicit)], Missing)]
      | Some (k, v) \<Rightarrow>
          (case coerce v of None \<Rightarrow> Inl [([Key k], ety)] | Some x \<Rightarrow> Inr x))"

text \<open>
  The field \<^verbatim>\<open>ticker\<close>: when the key is present, \<^verbatim>\<open>validate_ticker\<close> runs on the raw
  value first and an exception it raises that is not a \<^verbatim>\<open>ValueError\<close> or an
  \<^verbatim>\<open>AssertionError\<close> leaves the validation as it is; its result is then validated as a
  \<^verbatim>\<open>str\<close>.
\<close>

definition validate_ticker_field :: "(string \<times> json) list \<Rightarrow> exn + (error_detail list + string)" where
  "validate_ticker_field raw =
     (case lookup_field raw (field_alias ''ticker'' None) ''ticker'' of
        None \<Rightarrow> Inr (Inl [([Key (field_alias ''ticker'' None)], Missing)])
      | Some (k, v) \<Rightarrow>
          (case validate_ticker v of
             Inl e \<Rightarrow> Inl e
           | Inr t \<Rightarrow>
               Inr (case to_str (JStr t) of
                      None \<Rightarrow> Inl [([Key k], String_type)]
                    | Some s \<Rightarrow> Inr s)))"

text \<open>Errors of all fields are collected; a value is built only when there is none.\<close>

definition collect ::
  "error_detail list + ('a \<Rightarrow> 'b) \<Rightarrow> error_detail list + 'a \<Rightarrow> error_detail list + 'b" where
  "collect f x =
     (case f of
        Inr g \<Rightarrow> (case x of Inr v \<Rightarrow> Inr (g v) | Inl es \<Rightarrow> Inl es)
      | Inl fs \<Rightarrow> (case x of Inr v \<Rightarrow> Inl fs | Inl es \<Rightarrow> Inl (fs @ es)))"

text \<open>
  Validation of one raw record against \<^verbatim>\<open>Position\<close>, the fields in the order of the
  class.  Keys of the record that name no field are ignored.
\<close>

definition validate_Position ::
  "coercers \<Rightarrow> (string \<times> json) list \<Rightarrow> exn + (error_detail list + position)" where
  "validate_Position c raw =
     (case validate_ticker_field raw of
        Inl e \<Rightarrow> Inl e
      | Inr t \<Rightarrow>
          Inr (collect (collect (collect (collect (collect (collect (collect (collect (collect
                 (collect (collect (Inr make_position) t)
                 (validate_field raw ''quantity'' None (float_validator c) Float_type))
                 (validate_field raw ''average_price'' None (float_validator c) Float_type))
                 (validate_field raw ''current_price'' None (float_validator c) Float_type))
                 (validate_field raw ''profit'' (Some ''ppl'') (float_validator c) Float_type))
                 (validate_field raw ''forex_movement_impact'' (Some ''fxPpl'')
                    (to_optional_float c) Float_type))
                 (validate_field raw ''initial_fill_date'' None (datetime_validator c) Datetime_type))
                 (validate_field raw ''frontend'' None to_str String_type))
                 (validate_field raw ''max_buy'' None (float_validator c) Float_type))
                 (validate_field raw ''max_sell'' None (float_validator c) Float_type))
                 (validate_field raw ''pie_quantity'' None (float_validator c) Float_type)))"


text \<open>The computed field \<^verbatim>\<open>current_value\<close>: a property, evaluated at each access.\<close>

definition current_value :: "position \<Rightarrow> real" where
  "current_value self = current_price self * quantity self"

text \<open>
  Attribute assignment on a \<^verbatim>\<open>Position\<close> (\<^verbatim>\<open>BaseModel.__setattr__\<close>), for values of the
  declared type: a frozen model refuses every assignment; \<^verbatim>\<open>current_value\<close> is a
  property without a setter; a name that is no field is refused; a field is stored.
\<close>

datatype assignment =
    Set_ticker string
  | Set_quantity real
  | Set_average_price real
  | Set_current_price real
  | Set_profit real
  | Set_forex_movement_impact "real option"
  | Set_initial_fill_date datetime
  | Set_frontend string
  | Set_max_buy real
  | Set_max_sell real
  | Set_pie_quantity real
  | Set_current_value real
  | Set_other string

fun assign :: "position \<Rightarrow> assignment \<Rightarrow> exn + position" where
  "assign self (Set_ticker v) = Inr (self\<lparr>ticker := v\<rparr>)"
| "assign self (Set_quantity v) = Inr (self\<lparr>quantity := v\<rparr>)"
| "assign self (Set_average_price v) = Inr (self\<lparr>average_price := v\<rparr>)"
| "assign self (Set_current_price v) = Inr (self\<lparr>current_price := v\<rparr>)"
| "assign self (Set_profit v) = Inr (self\<lparr>profit := v\<rparr>)"
| "assign self (Set_forex_movement_impact v) = Inr (self\<lparr>forex_movement_impact := v\<rparr>)"
| "assign self (Set_initial_fill_date v) = Inr (self\<lparr>initial_fill_date := v\<rparr>)"
| "assign self (Set_frontend v) = Inr (self\<lparr>frontend := v\<rparr>)"
| "assign self (Set_max_buy v) = Inr (self\<lparr>max_buy := v\<rparr>)"
| "assign self (Set_max_sell v) = Inr (self\<lparr>max_sell := v\<rparr>)"
| "assign self (Set_pie_quantity v) = Inr (self\<lparr>pie_quantity := v\<rparr>)"
| "assign self (Set_current_value v) = Inl (AttributeError ''current_value'')"
| "assign self (Set_other name) = Inl (ValueError name)"

definition setattr_Position :: "position \<Rightarrow> assignment \<Rightarrow> exn + position" where
  "setattr_Position self a =
     (if frozen model_config then Inl (ValidationError [([], Frozen_instance)])
      else assign self a)"

subsection \<open>\<^verbatim>\<open>TypeAdapter(list[Position]).validate_python\<close>\<close>

definition at_index :: "nat \<Rightarrow> error_detail list + 'a \<Rightarrow> error_detail list + 'a" where
  "at_index i r =
     (case r of Inl es \<Rightarrow> Inl (map (\<lambda>(loc, ety). (Index i # loc, ety)) es) | Inr v \<Rightarrow> Inr v)"

definition validate_item :: "coercers \<Rightarrow> json \<Rightarrow> exn + (error_detail list + position)" where
  "validate_item c x =
     (case x of JObj raw \<Rightarrow> validate_Position c raw | _ \<Rightarrow> Inr (Inl [([], Model_type)]))"

text \<open>
  The items are validated in order; the errors of all of them are collected under their
  index, and an exception raised by a validator ends the run at once.
\<close>

fun validate_items ::
  "coercers \<Rightarrow> nat \<Rightarrow> json list \<Rightarrow> exn + (error_detail list + position list)" where
  "validate_items c i [] = Inr (Inr [])"
| "validate_items c i (x # xs) =
     (case validate_item c x of
        Inl e \<Rightarrow> Inl e
      | Inr r \<Rightarrow>
          (case validate_items c (Suc i) xs of
             Inl e \<Rightarrow> Inl e
           | Inr rs \<Rightarrow> Inr (collect (collect (Inr (#)) (at_index i r)) rs)))"

definition validate_python :: "coercers \<Rightarrow> json \<Rightarrow> exn + position list" where
  "validate_python c v =
     (case v of
        JArr xs \<Rightarrow>
          (case validate_items c 0 xs of
             Inl e \<Rightarrow> Inl e
           | Inr (Inl errs) \<Rightarrow> Inl (ValidationError errs)
           | Inr (Inr positions) \<Rightarrow> Inr positions)
      | _ \<Rightarrow> Inl (ValidationError [([], List_type)]))"

subsection \<open>Points of the time series\<close>

text \<open>
  An \<^verbatim>\<open>influxdb_client.Point\<close>: its measurement name, its dictionaries of tags and of
  fields (in insertion order) and its time.  A field holds a float or \<^verbatim>\<open>None\<close>.
\<close>

record point =
  p_name :: string
  p_tags :: "(string \<times> string) list"
  p_fields :: "(string \<times> real option) list"
  p_time :: "datetime option"

text \<open>\<^verbatim>\<open>d[k] = v\<close> on a dictionary.\<close>

fun dict_set :: "('k \<times> 'v) list \<Rightarrow> 'k \<Rightarrow> 'v \<Rightarrow> ('k \<times> 'v) list" where
  "dict_set [] k v = [(k, v)]"
| "dict_set ((k', v') # d) k v =
     (if k' = k then (k, v) # d else (k', v') # dict_set d k v)"

definition Point :: "string \<Rightarrow> point" where
  "Point measurement_name =
     \<lparr>p_name = measurement_name, p_tags = [], p_fields = [], p_time = None\<rparr>"

definition Point_tag :: "string \<Rightarrow> string \<Rightarrow> point \<Rightarrow> point" where
  "Point_tag key v self = self\<lparr>p_tags := dict_set (p_tags self) key v\<rparr>"

definition Point_field :: "string \<Rightarrow> real option \<Rightarrow> point \<Rightarrow> point" where
  "Point_field key v self = self\<lparr>p_fields := dict_set (p_fields self) key v\<rparr>"

definition Point_time :: "datetime \<Rightarrow> point \<Rightarrow> point" where
  "Point_time t self = self\<lparr>p_time := Some t\<rparr>"

subsection \<open>The world outside: settings, network, clock, database\<close>

record response =
  status_code :: nat
  body :: "json option"

datatype event =
    Client_open string
  | Client_close
  | Http_get string
  | Log_error nat exn
  | Log_info string
  | Influx_client_open
  | Influx_write string string "point list"

text \<open>
  What the run does not decide: the settings, the outcome of the GET for an API key and a
  URL, the value of the clock at its n-th reading, and the outcome of the database write
  for a bucket, an organisation and a batch.
\<close>

record env =
  t212_api_key :: string
  t212_url :: string
  influxdb_org :: string
  stocks_bucket_name :: string
  http_get :: "string \<Rightarrow> string \<Rightarrow> exn + response"
  clock :: "nat \<Rightarrow> datetime"
  influx_write :: "string \<Rightarrow> string \<Rightarrow> point list \<Rightarrow> exn option"

text \<open>The state of a run: how often the clock was read, and the events so far.\<close>

record state =
  ticks :: nat
  trace :: "event list"

definition emit :: "event \<Rightarrow> state \<Rightarrow> state" where
  "emit e s = s\<lparr>trace := trace s @ [e]\<rparr>"

definition datetime_now :: "env \<Rightarrow> state \<Rightarrow> datetime \<times> state" where
  "datetime_now env s = (clock env (ticks s), s\<lparr>ticks := Suc (ticks s)\<rparr>)"

subsection \<open>\<^verbatim>\<open>Position.to_point\<close>\<close>

definition to_point :: "env \<Rightarrow> position \<Rightarrow> datetime option \<Rightarrow> state \<Rightarrow> point \<times> state" where
  "to_point env self time s =
     (case (case time of None \<Rightarrow> datetime_now env s | Some t \<Rightarrow> (t, s)) of
        (t, s') \<Rightarrow>
          (Point_time t
            (Point_field ''current_value'' (Some (current_value self))
            (Point_field ''forex_movement_impact'' (forex_movement_impact self)
            (Point_field ''profit'' (Some (profit self))
            (Point_field ''quantity'' (Some (quantity self))
            (Point_field ''average_price'' (Some (average_price self))
            (Point_field ''current_price'' (Some (current_price self))
            (Point_tag ''ticker'' (ticker self)
            (Point ''stock_price'')))))))),
           s'))"

subsection \<open>The Trading212 client\<close>

text \<open>
  \<^verbatim>\<open>get_t212_client\<close> is a context manager: the client is created, the body of the
  \<^verbatim>\<open>with\<close> block runs, and the \<^verbatim>\<open>finally\<close> clause closes the client whether the body
  returned or raised.
\<close>

definition get_t212_client ::
  "env \<Rightarrow> (string \<Rightarrow> state \<Rightarrow> (exn + 'a) \<times> state) \<Rightarrow> state \<Rightarrow> (exn + 'a) \<times> state" where
  "get_t212_client env block s =
     (case block (t212_api_key env) (emit (Client_open (t212_api_key env)) s) of
        (r, s') \<Rightarrow> (r, emit Client_close s'))"

definition client_get :: "env \<Rightarrow> string \<Rightarrow> string \<Rightarrow> state \<Rightarrow> (exn + response) \<times> state" where
  "client_get env url key s = (http_get env key url, emit (Http_get url) s)"

definition raise_for_status :: "response \<Rightarrow> exn + response" where
  "raise_for_status r =
     (if 200 \<le> status_code r \<and> status_code r \<le> 299 then Inr r
      else Inl (HTTPStatusError (status_code r)))"

definition response_json :: "response \<Rightarrow> exn + json" where
  "response_json r = (case body r of None \<Rightarrow> Inl JSONDecodeError | Some v \<Rightarrow> Inr v)"

text \<open>
  \<^verbatim>\<open>get_open_positions\<close>.  The local variable \<^verbatim>\<open>response\<close> is bound only when
  \<^verbatim>\<open>client.get\<close> returned.  The handler of \<^verbatim>\<open>HTTPError\<close> first formats its log message,
  which reads \<^verbatim>\<open>response.status_code\<close>: with \<^verbatim>\<open>response\<close> unbound that raises
  \<^verbatim>\<open>UnboundLocalError\<close> and the handler is left before its \<^verbatim>\<open>raise ... from exc\<close>.
  An exception that is no \<^verbatim>\<open>HTTPError\<close> is not handled.
\<close>

definition get_open_positions :: "coercers \<Rightarrow> env \<Rightarrow> state \<Rightarrow> (exn + position list) \<times> state" where
  "get_open_positions c env s =
     (case get_t212_client env (client_get env (t212_url env)) s of
        (got, s1) \<Rightarrow>
          (case (case got of Inl e \<Rightarrow> Inl e | Inr response \<Rightarrow> raise_for_status response) of
             Inl exc \<Rightarrow>
               (if is_HTTPError exc then
                  (case got of
                     Inl _ \<Rightarrow> (Inl (UnboundLocalError ''response'' exc), s1)
                   | Inr response \<Rightarrow>
                       (Inl (APICallFailedException exc),
                        emit (Log_error (status_code response) exc) s1))
                else (Inl exc, s1))
           | Inr response \<Rightarrow>
               (case response_json response of
                  Inl e \<Rightarrow> (Inl e, emit (Log_info ''API call to Trading212 successful.'') s1)
                | Inr v \<Rightarrow>
                    (validate_python c v,
                     emit (Log_info ''API call to Trading212 successful.'') s1))))"

subsection \<open>The InfluxDB client and the entry point\<close>

definition push_data_to_influxdb :: "env \<Rightarrow> point list \<Rightarrow> string \<Rightarrow> state \<Rightarrow> (exn + unit) \<times> state" where
  "push_data_to_influxdb env points bucket s =
     (case influx_write env bucket (influxdb_org env) points of
        Some e \<Rightarrow>
          (Inl e, emit (Influx_write bucket (influxdb_org env) points) (emit Influx_client_open s))
      | None \<Rightarrow>
          (Inr (),
           emit (Log_info ''Data pushed to InfluxDB successfully.'')
             (emit (Influx_write bucket (influxdb_org env) points) (emit Influx_client_open s))))"

text \<open>The list comprehension of \<^verbatim>\<open>main.py\<close>: one call of \<^verbatim>\<open>to_point\<close> per position.\<close>

fun to_points :: "env \<Rightarrow> datetime \<Rightarrow> position list \<Rightarrow> state \<Rightarrow> point list \<times> state" where
  "to_points env timestamp [] s = ([], s)"
| "to_points env timestamp (position # positions) s =
     (case to_point env position (Some timestamp) s of
        (pt, s1) \<Rightarrow>
          (case to_points env timestamp positions s1 of
             (pts, s2) \<Rightarrow> (pt # pts, s2)))"

text \<open>
  The script \<^verbatim>\<open>main.py\<close>: an exception of the fetch is not caught and ends the run;
  otherwise the clock is read, the points are built and the batch is written.
\<close>

definition main :: "coercers \<Rightarrow> env \<Rightarrow> state \<Rightarrow> (exn + unit) \<times> state" where
  "main c env s =
     (case get_open_positions c env s of
        (Inl e, s1) \<Rightarrow> (Inl e, s1)
      | (Inr positions, s1) \<Rightarrow>
          (case datetime_now env s1 of
             (timestamp, s2) \<Rightarrow>
               (case to_points env timestamp positions s2 of
                  (points, s3) \<Rightarrow>
                    push_data_to_influxdb env points (stocks_bucket_name env) s3)))"

subsection \<open>The data of the repository's tests\<close>

text \<open>
  \<^verbatim>\<open>DEFAULT_RESPONSE_CONTENT\<close> of \<^verbatim>\<open>tests/test_t212_client.py\<close>, and coercions that
  cover it: a JSON number is a float, and the one timestamp text of the test data is the
  instant 2025-03-12 17:00:00 UTC at the offset of three hours.
\<close>

definition TEST1 :: "(string \<times> json) list" where
  "TEST1 =
     [(''ticker'', JStr ''TEST1_US_EQ''), (''quantity'', JFloat 0.168629),
      (''averagePrice'', JFloat 52.8971885), (''currentPrice'', JFloat 56.73),
      (''ppl'', JFloat 0.99), (''fxPpl'', JFloat 0.27),
      (''initialFillDate'', JStr ''2025-03-12T20:00:00.000+03:00''),
      (''frontend'', JStr ''SYSTEM''), (''maxBuy'', JFloat 1000.1), (''maxSell'', JInt 1000),
      (''pieQuantity'', JInt 0)]"

definition TEST2 :: "(string \<times> json) list" where
  "TEST2 =
     [(''ticker'', JStr ''TEST2_US_EQ''), (''quantity'', JInt 1),
      (''averagePrice'', JFloat 30.7), (''currentPrice'', JFloat 24.92),
      (''ppl'', JFloat (- 4.9)), (''fxPpl'', JFloat 0.94),
      (''initialFillDate'', JStr ''2025-03-12T20:00:00.000+03:00''),
      (''frontend'', JStr ''ANDROID''), (''maxBuy'', JInt 1000), (''maxSell'', JInt 1000),
      (''pieQuantity'', JInt 0)]"

definition DEFAULT_RESPONSE_CONTENT :: json where
  "DEFAULT_RESPONSE_CONTENT = JArr [JObj TEST1, JObj TEST2]"

definition test_coercers :: coercers where
  "test_coercers =
     \<lparr>to_float = (\<lambda>v. case v of JInt i \<Rightarrow> Some (of_int i) | JFloat x \<Rightarrow> Some x | _ \<Rightarrow> None),
      to_datetime =
        (\<lambda>v. case v of
           JStr s \<Rightarrow>
             (if s = ''2025-03-12T20:00:00.000+03:00''
              then Some (Datetime 1741798800000000 (Some 180)) else None)
         | _ \<Rightarrow> None)\<rparr>"

definition test_env :: "(exn + response) \<Rightarrow> env" where
  "test_env outcome =
     \<lparr>t212_api_key = ''NOT_SET'', t212_url = ''NOT_SET'', influxdb_org = ''NOT_SET'',
      stocks_bucket_name = ''stocks'', http_get = (\<lambda>key url. outcome),
      clock = (\<lambda>n. Datetime (1741860610000000 + int n) (Some 0)),
      influx_write = (\<lambda>bucket org points. None)\<rparr>"

definition start :: state where
  "start = \<lparr>ticks = 0, trace = []\<rparr>"

text \<open>
  The positions that \<^verbatim>\<open>test_get_open_positions\<close> expects for that content, and the
  position that \<^verbatim>\<open>test_position_to_point\<close> builds from
  \<^verbatim>\<open>DEFAULT_SCHEMA_INIT_ARGS\<close> (its date is 2025-03-13 10:10:10 UTC).
\<close>

definition EXPECTED_POSITIONS :: "position list" where
  "EXPECTED_POSITIONS =
     [\<lparr>ticker = ''TEST1'', quantity = 0.168629, average_price = 52.8971885,
       current_price = 56.73, profit = 0.99, forex_movement_impact = Some 0.27,
       initial_fill_date = Datetime 1741798800000000 (Some 180), frontend = ''SYSTEM'',
       max_buy = 1000.1, max_sell = 1000.0, pie_quantity = 0.0\<rparr>,
      \<lparr>ticker = ''TEST2'', quantity = 1.0, average_price = 30.7,
       current_price = 24.92, profit = - 4.9, forex_movement_impact = Some 0.94,
       initial_fill_date = Datetime 1741798800000000 (Some 180), frontend = ''ANDROID'',
       max_buy = 1000.0, max_sell = 1000.0, pie_quantity = 0.0\<rparr>]"

definition DEFAULT_POSITION :: position where
  "DEFAULT_POSITION =
     \<lparr>ticker = ''TEST'', quantity = 2.0, average_price = 10.5, current_price = 12.5,
      profit = 10.1, forex_movement_impact = Some 0.5,
      initial_fill_date = Datetime 1741860610000000 (Some 0), frontend = ''app'',
      max_buy = 1000, max_sell = 2.0, pie_quantity = 0\<rparr>"

subsection \<open>Observations used in the statements\<close>

text \<open>The errors of a validation result; the events of the network client; the writes.\<close>

definition errors_of :: "error_detail list + 'a \<Rightarrow> error_detail list" where
  "errors_of r = (case r of Inl es \<Rightarrow> es | Inr _ \<Rightarrow> [])"

fun is_client_event :: "event \<Rightarrow> bool" where
  "is_client_event (Client_open _) = True"
| "is_client_event Client_close = True"
| "is_client_event _ = False"

fun is_write :: "event \<Rightarrow> bool" where
  "is_write (Influx_write _ _ _) = True"
| "is_write _ = False"

section \<open>Properties\<close>

subsection \<open>Strings and the ticker rule\<close>

lemma find_sep_chr:
  "find_sep [x] s =
     (if x \<in> set s
      then Some (takeWhile (\<lambda>c. c \<noteq> x) s, tl (dropWhile (\<lambda>c. c \<noteq> x) s))
      else None)"
  by (induction s) auto

lemma takeWhile_absent: "x \<notin> set s \<Longrightarrow> takeWhile (\<lambda>c. c \<noteq> x) s = s"
  by (induction s) auto

lemma takeWhile_first: "x \<notin> set b \<Longrightarrow> takeWhile (\<lambda>c. c \<noteq> x) (b @ x # a) = b"
  by (induction b) auto

lemma str_partition_before:
  "fst (str_partition s [x]) = takeWhile (\<lambda>c. c \<noteq> x) s"
  by (simp add: str_partition_def find_sep_chr takeWhile_absent)

lemma validate_ticker_takeWhile:
  "validate_ticker (JStr s) = Inr (str_upper (takeWhile (\<lambda>c. c \<noteq> CHR ''_'') s))"
proof -
  obtain a b c where p: "str_partition s ''_'' = (a, b, c)"
    by (cases "str_partition s ''_''") auto
  with str_partition_before [of s "CHR ''_''"] have "a = takeWhile (\<lambda>c. c \<noteq> CHR ''_'') s"
    by simp
  with p show ?thesis by simp
qed

text \<open>
  Claim C2.  For every raw ticker string, the normalized ticker is the upper-cased segment
  before the first underscore: a string \<open>b_a\<close> whose part \<open>b\<close> has no underscore gives
  \<open>b\<close> upper-cased, and a string with no underscore gives the whole string upper-cased.
\<close>

theorem validate_ticker_first_segment:
  "(CHR ''_'' \<notin> set b \<longrightarrow>
      validate_ticker (JStr (b @ CHR ''_'' # a)) = Inr (str_upper b))
   \<and> (CHR ''_'' \<notin> set s \<longrightarrow> validate_ticker (JStr s) = Inr (str_upper s))"
  by (simp add: validate_ticker_takeWhile takeWhile_absent takeWhile_first
      del: validate_ticker.simps)

theorem validate_ticker_first_segment_witness:
  "CHR ''_'' \<notin> set ''aapl'' \<and> CHR ''_'' \<notin> set ''Test1''
   \<and> validate_ticker (JStr ''aapl_US_EQ'') = Inr ''AAPL''
   \<and> validate_ticker (JStr ''Test1'') = Inr ''TEST1''"
  using validate_ticker_first_segment [of "''aapl''" "''US_EQ''" "''Test1''"]
  by (simp add: str_upper_def upper_chr_def)

subsection \<open>Validation of one record\<close>

lemma collect_Inr_iff:
  "collect f x = Inr y \<longleftrightarrow> (\<exists>g v. f = Inr g \<and> x = Inr v \<and> y = g v)"
  by (auto simp: collect_def split: sum.splits)

lemma collect_Inr_Inr: "collect (Inr g) (Inr v) = Inr (g v)"
  by (simp add: collect_def)

lemma errors_of_Inl: "errors_of (Inl es) = es"
  by (simp add: errors_of_def)

lemma errors_of_collect: "errors_of (collect f x) = errors_of f @ errors_of x"
  by (simp add: collect_def errors_of_def split: sum.splits)

lemma aliases:
  "field_alias ''ticker'' None = ''ticker''"
  "field_alias ''quantity'' None = ''quantity''"
  "field_alias ''average_price'' None = ''averagePrice''"
  "field_alias ''current_price'' None = ''currentPrice''"
  "field_alias ''profit'' (Some ''ppl'') = ''ppl''"
  "field_alias ''forex_movement_impact'' (Some ''fxPpl'') = ''fxPpl''"
  "field_alias ''initial_fill_date'' None = ''initialFillDate''"
  "field_alias ''frontend'' None = ''frontend''"
  "field_alias ''max_buy'' None = ''maxBuy''"
  "field_alias ''max_sell'' None = ''maxSell''"
  "field_alias ''pie_quantity'' None = ''pieQuantity''"
  by (simp_all add: field_alias_def model_config_def upper_chr_def)

text \<open>A key that is neither the alias nor the name of a field does not touch the field.\<close>

lemma lookup_field_extra:
  "k \<noteq> alias \<Longrightarrow> k \<noteq> name \<Longrightarrow>
     lookup_field ((k, v) # raw) alias name = lookup_field raw alias name"
  by (auto simp: lookup_field_def split: option.splits)

lemma validate_field_extra:
  "k \<noteq> field_alias name explicit \<Longrightarrow> k \<noteq> name \<Longrightarrow>
     validate_field ((k, v) # raw) name explicit coerce ety =
     validate_field raw name explicit coerce ety"
  by (simp add: validate_field_def lookup_field_extra)

lemma validate_ticker_field_extra:
  "k \<noteq> ''ticker'' \<Longrightarrow> validate_ticker_field ((k, v) # raw) = validate_ticker_field raw"
  by (simp add: validate_ticker_field_def aliases lookup_field_extra)

lemma validate_Position_extra_current_value:
  "validate_Position c ((''current_value'', v) # raw) = validate_Position c raw"
  by (simp add: validate_Position_def validate_ticker_field_extra validate_field_extra aliases
      cong: sum.case_cong)

lemma validate_Position_extra_currentValue:
  "validate_Position c ((''currentValue'', v) # raw) = validate_Position c raw"
  by (simp add: validate_Position_def validate_ticker_field_extra validate_field_extra aliases
      cong: sum.case_cong)

text \<open>The model evaluated on the data of the tests.\<close>

lemmas eval_validate =
  validate_python_def validate_item_def validate_Position_def validate_ticker_field_def
  validate_field_def lookup_field_def aliases test_coercers_def collect_def at_index_def
  to_str_def to_optional_float_def float_validator_def datetime_validator_def
  make_position_def str_partition_def str_upper_def upper_chr_def model_config_def

lemma validate_TEST1:
  "validate_Position test_coercers TEST1 = Inr (Inr (EXPECTED_POSITIONS ! 0))"
  by (simp add: eval_validate TEST1_def EXPECTED_POSITIONS_def)

lemma validate_DEFAULT_RESPONSE_CONTENT:
  "validate_python test_coercers DEFAULT_RESPONSE_CONTENT = Inr EXPECTED_POSITIONS"
  by (simp add: eval_validate DEFAULT_RESPONSE_CONTENT_def TEST1_def TEST2_def
      EXPECTED_POSITIONS_def)

text \<open>
  Claim C3.  The derived field \<open>current_value\<close> of a position is the product of its
  \<open>current_price\<close> and its \<open>quantity\<close>; it is computed from the two fields as they are at
  the access and from nothing else; and it is no input of the validation: a key
  \<open>current_value\<close> or \<open>currentValue\<close> of the raw record changes nothing.
\<close>

theorem current_value_derived:
  "current_value p = current_price p * quantity p
   \<and> current_value (p\<lparr>current_price := a, quantity := b\<rparr>) = a * b
   \<and> current_value
       (p\<lparr>ticker := t, average_price := ap, profit := pr, forex_movement_impact := fx,
          initial_fill_date := d, frontend := fe, max_buy := mb, max_sell := ms,
          pie_quantity := pq\<rparr>) = current_value p
   \<and> validate_Position c ((''current_value'', v) # raw) = validate_Position c raw
   \<and> validate_Position c ((''currentValue'', v) # raw) = validate_Position c raw"
  by (simp add: current_value_def validate_Position_extra_current_value
      validate_Position_extra_currentValue)


















subsection \<open>Assignment to a position\<close>

text \<open>
  Claim C6, as amended.  The derived field \<open>current_value\<close> of a position cannot be
  assigned; the declared fields can, since the model is not frozen, and \<open>current_value\<close>
  follows the fields as they are after the assignment.
\<close>

theorem position_fields_assignable:
  "setattr_Position p (Set_current_value v) = Inl (AttributeError ''current_value'')
   \<and> setattr_Position p (Set_quantity q) = Inr (p\<lparr>quantity := q\<rparr>)
   \<and> setattr_Position p (Set_current_price cp) = Inr (p\<lparr>current_price := cp\<rparr>)
   \<and> setattr_Position p (Set_ticker t) = Inr (p\<lparr>ticker := t\<rparr>)
   \<and> current_value (p\<lparr>quantity := q\<rparr>) = current_price p * q"
  by (simp add: setattr_Position_def model_config_def current_value_def)

text \<open>
  The claim as it was stated fails on the position of the schema test: its \<open>quantity\<close>, 2,
  is reassigned to 3.
\<close>

theorem position_immutable_counterexample:
  "setattr_Position DEFAULT_POSITION (Set_quantity 3) = Inr (DEFAULT_POSITION\<lparr>quantity := 3\<rparr>)
   \<and> quantity DEFAULT_POSITION = 2 \<and> quantity (DEFAULT_POSITION\<lparr>quantity := 3\<rparr>) = 3"
  by (simp add: setattr_Position_def model_config_def DEFAULT_POSITION_def)

subsection \<open>Points\<close>

lemma to_point_explicit:
  "to_point env p (Some t) s =
    (\<lparr>p_name = ''stock_price'', p_tags = [(''ticker'', ticker p)],
      p_fields =
        [(''current_price'', Some (current_price p)), (''average_price'', Some (average_price p)),
         (''quantity'', Some (quantity p)), (''profit'', Some (profit p)),
         (''forex_movement_impact'', forex_movement_impact p),
         (''current_value'', Some (current_value p))],
      p_time = Some t\<rparr>, s)"
  by (simp add: to_point_def Point_def Point_tag_def Point_field_def Point_time_def)

lemma to_point_tags: "p_tags (fst (to_point env p time s)) = [(''ticker'', ticker p)]"
  by (simp add: to_point_def Point_def Point_tag_def Point_field_def Point_time_def
      split: option.splits prod.splits)

text \<open>\<^verbatim>\<open>test_position_to_point\<close>: the tags and fields the test asserts.\<close>

lemma test_position_to_point:
  "p_tags (fst (to_point env DEFAULT_POSITION None s)) = [(''ticker'', ''TEST'')]
   \<and> p_fields (fst (to_point env DEFAULT_POSITION None s)) =
       [(''current_price'', Some 12.5), (''average_price'', Some 10.5),
        (''quantity'', Some 2.0), (''profit'', Some 10.1),
        (''forex_movement_impact'', Some 0.5), (''current_value'', Some 25.0)]"
  by (simp add: to_point_def Point_def Point_tag_def Point_field_def Point_time_def
      datetime_now_def DEFAULT_POSITION_def current_value_def)

text \<open>
  Claim C7.  For every position and supplied timestamp, \<open>to_point\<close> returns the point of
  measurement \<open>stock_price\<close> with the one tag \<open>ticker\<close>, the six fields \<open>current_price\<close>,
  \<open>average_price\<close>, \<open>quantity\<close>, \<open>profit\<close>, \<open>forex_movement_impact\<close>, \<open>current_value\<close> and
  the timestamp, and changes no state; the field \<open>forex_movement_impact\<close> of a position
  without one is there and holds \<open>None\<close>, not zero.
\<close>

theorem to_point_shape:
  "to_point env p (Some t) s =
    (\<lparr>p_name = ''stock_price'', p_tags = [(''ticker'', ticker p)],
      p_fields =
        [(''current_price'', Some (current_price p)), (''average_price'', Some (average_price p)),
         (''quantity'', Some (quantity p)), (''profit'', Some (profit p)),
         (''forex_movement_impact'', forex_movement_impact p),
         (''current_value'', Some (current_value p))],
      p_time = Some t\<rparr>, s)
   \<and> map_of (p_fields (fst (to_point env (p\<lparr>forex_movement_impact := None\<rparr>) (Some t) s)))
         ''forex_movement_impact'' = Some None
   \<and> map_of (p_fields (fst (to_point env (p\<lparr>forex_movement_impact := None\<rparr>) (Some t) s)))
         ''forex_movement_impact'' \<noteq> Some (Some 0)"
  by (simp add: to_point_explicit)

lemma validate_Position_underscore_ticker:
  assumes "validate_Position c ((''ticker'', JStr t) # raw) = Inr (Inr p)"
  shows "validate_Position c ((''ticker'', JStr (CHR ''_'' # rest)) # raw) =
           Inr (Inr (p\<lparr>ticker := []\<rparr>))"
proof -
  have tf: "validate_ticker_field ((''ticker'', JStr x) # raw) =
              Inr (Inr (str_upper (takeWhile (\<lambda>c. c \<noteq> CHR ''_'') x)))" for x
    by (simp add: validate_ticker_field_def lookup_field_def aliases validate_ticker_takeWhile
        to_str_def del: validate_ticker.simps)
  show ?thesis
    using assms
    by (auto simp: validate_Position_def tf validate_field_extra aliases collect_Inr_iff
        collect_Inr_Inr make_position_def str_upper_def)
qed

text \<open>
  Claim C10.  A ticker string that begins with an underscore is normalized to the empty
  string; a record that validates with a string ticker validates with such a ticker too,
  to the same position with the empty ticker; and the point of that position has the tag
  \<open>ticker\<close> with the empty string.
\<close>

theorem underscore_ticker_empty:
  "validate_ticker (JStr (CHR ''_'' # rest)) = Inr []
   \<and> (validate_Position c ((''ticker'', JStr t) # raw) = Inr (Inr p)
     \<longrightarrow> validate_Position c ((''ticker'', JStr (CHR ''_'' # rest)) # raw) =
           Inr (Inr (p\<lparr>ticker := []\<rparr>)))
   \<and> p_tags (fst (to_point env (p\<lparr>ticker := []\<rparr>) time s)) = [(''ticker'', [])]"
  using validate_Position_underscore_ticker [of c t raw p rest]
  by (simp add: validate_ticker_takeWhile to_point_tags str_upper_def
      del: validate_ticker.simps)

theorem underscore_ticker_empty_witness:
  "validate_ticker (JStr ''_US_EQ'') = Inr []
   \<and> validate_Position test_coercers ((''ticker'', JStr ''TEST1_US_EQ'') # TEST1) =
       Inr (Inr (EXPECTED_POSITIONS ! 0))
   \<and> validate_Position test_coercers ((''ticker'', JStr ''_US_EQ'') # TEST1) =
       Inr (Inr ((EXPECTED_POSITIONS ! 0)\<lparr>ticker := []\<rparr>))
   \<and> p_tags (fst (to_point (test_env (Inl (OtherError [])))
        ((EXPECTED_POSITIONS ! 0)\<lparr>ticker := []\<rparr>) None start)) = [(''ticker'', [])]"
proof -
  have b: "validate_Position test_coercers ((''ticker'', JStr ''TEST1_US_EQ'') # TEST1) =
       Inr (Inr (EXPECTED_POSITIONS ! 0))"
    by (simp add: eval_validate TEST1_def EXPECTED_POSITIONS_def)
  show ?thesis
    using b underscore_ticker_empty [of "''US_EQ''" test_coercers "''TEST1_US_EQ''" TEST1
        "EXPECTED_POSITIONS ! 0" "test_env (Inl (OtherError []))" None start]
    by simp
qed

subsection \<open>Validation of the batch\<close>

text \<open>A batch that validates has one position per record, each the result of its record.\<close>

lemma validate_items_all:
  "validate_items c i xs = Inr (Inr ps) \<Longrightarrow>
     length ps = length xs \<and> (\<forall>j<length xs. validate_item c (xs ! j) = Inr (Inr (ps ! j)))"
proof (induction xs arbitrary: i ps)
  case Nil
  then show ?case by simp
next
  case (Cons x xs)
  from Cons.prems obtain p qs where x: "validate_item c x = Inr (Inr p)"
    and r: "validate_items c (Suc i) xs = Inr (Inr qs)" and ps: "ps = p # qs"
    by (auto simp: collect_Inr_iff at_index_def split: sum.splits)
  from Cons.IH [OF r] x ps show ?case
    by (auto simp: nth_Cons split: nat.splits)
qed

text \<open>When no validator raises, every error of every record is reported under its index.\<close>

lemma validate_items_reports:
  "validate_items c i xs = Inr r \<Longrightarrow> j < length xs \<Longrightarrow>
   validate_item c (xs ! j) = Inr (Inl es) \<Longrightarrow> (loc, ety) \<in> set es \<Longrightarrow>
     (Index (i + j) # loc, ety) \<in> set (errors_of r)"
proof (induction xs arbitrary: i j r)
  case Nil
  then show ?case by simp
next
  case (Cons x xs)
  from Cons.prems(1) obtain a b where a: "validate_item c x = Inr a"
    and b: "validate_items c (Suc i) xs = Inr b"
    and r: "r = collect (collect (Inr (#)) (at_index i a)) b"
    by (auto split: sum.splits)
  show ?case
  proof (cases j)
    case 0
    with Cons.prems a have "a = Inl es" by simp
    with r Cons.prems(4) 0 show ?thesis
      by (force simp: errors_of_collect errors_of_Inl at_index_def)
  next
    case (Suc k)
    with Cons.prems Cons.IH [OF b, of k] r show ?thesis
      by (simp add: errors_of_collect)
  qed
qed

lemma validate_python_all_or_nothing:
  "validate_python c (JArr xs) = Inr ps \<Longrightarrow>
     length ps = length xs \<and> (\<forall>j<length xs. validate_item c (xs ! j) = Inr (Inr (ps ! j)))"
  using validate_items_all [of c 0 xs ps]
  by (auto simp: validate_python_def split: sum.splits)

lemma validate_python_reports:
  assumes "validate_items c 0 xs = Inr r" and "j < length xs"
    and "validate_item c (xs ! j) = Inr (Inl es)" and "(loc, ety) \<in> set es"
  shows "\<exists>errs. validate_python c (JArr xs) = Inl (ValidationError errs)
           \<and> (Index j # loc, ety) \<in> set errs"
proof -
  from validate_items_reports [OF assms] have m: "(Index j # loc, ety) \<in> set (errors_of r)"
    by simp
  then obtain errs where "r = Inl errs"
    by (cases r) (auto simp: errors_of_def)
  with m assms(1) show ?thesis
    by (simp add: validate_python_def errors_of_Inl)
qed

text \<open>
  The only exception a record can raise is the \<open>AttributeError\<close> of the ticker
  validator, and a batch with a record that raises ends in it.
\<close>

lemma validate_item_raises_only:
  "validate_item c x = Inl e \<Longrightarrow> e = AttributeError ''partition''"
  by (cases x)
     (auto simp: validate_item_def validate_Position_def validate_ticker_field_def
       elim: validate_ticker.elims split: sum.splits option.splits prod.splits)

lemma validate_items_raises:
  "j < length xs \<Longrightarrow> validate_item c (xs ! j) = Inl e \<Longrightarrow>
     validate_items c i xs = Inl (AttributeError ''partition'')"
proof (induction xs arbitrary: i j)
  case Nil
  then show ?case by simp
next
  case (Cons x xs)
  show ?case
  proof (cases "validate_item c x")
    case (Inl e')
    with validate_item_raises_only [OF Inl] show ?thesis by simp
  next
    case (Inr a)
    with Cons.prems obtain k where j: "j = Suc k" by (cases j) auto
    with Cons.prems Cons.IH [of k "Suc i"] Inr show ?thesis by simp
  qed
qed

lemma validate_item_non_string_ticker:
  "validate_item c (JObj ((''ticker'', JInt n) # raw)) = Inl (AttributeError ''partition'')"
  "validate_item c (JObj ((''ticker'', JNull) # raw)) = Inl (AttributeError ''partition'')"
  by (simp_all add: validate_item_def validate_Position_def
      validate_ticker_field_def lookup_field_def aliases)

text \<open>
  Claim C8, at the failing input.  A batch with a record whose ticker is present and no
  string (a number, or \<open>null\<close>) does not end in a validation error that names the
  record: the ticker validator raises \<open>AttributeError\<close>, whatever the rest of the record
  and whatever the records before and after it.
\<close>

theorem non_string_ticker_raises:
  "validate_python c (JArr (xs @ JObj ((''ticker'', JInt n) # raw) # ys)) =
     Inl (AttributeError ''partition'')
   \<and> validate_python c (JArr (xs @ JObj ((''ticker'', JNull) # raw) # ys)) =
     Inl (AttributeError ''partition'')"
  using validate_items_raises [of "length xs" "xs @ JObj ((''ticker'', JInt n) # raw) # ys" c _ 0]
    validate_items_raises [of "length xs" "xs @ JObj ((''ticker'', JNull) # raw) # ys" c _ 0]
  by (simp add: validate_python_def validate_item_non_string_ticker)

subsection \<open>The fetch\<close>

lemma fetch_DEFAULT_RESPONSE_CONTENT:
  "get_open_positions test_coercers
     (test_env (Inr \<lparr>status_code = 200, body = Some DEFAULT_RESPONSE_CONTENT\<rparr>)) start =
   (Inr EXPECTED_POSITIONS,
    \<lparr>ticks = 0,
     trace = [Client_open ''NOT_SET'', Http_get ''NOT_SET'', Client_close,
              Log_info ''API call to Trading212 successful.'']\<rparr>)"
  by (simp add: get_open_positions_def get_t212_client_def client_get_def raise_for_status_def
      response_json_def emit_def test_env_def start_def validate_DEFAULT_RESPONSE_CONTENT)

text \<open>A response outside 200..299 ends in \<open>APICallFailedException\<close> with its cause.\<close>

lemma non_2xx_APICallFailed:
  "http_get env (t212_api_key env) (t212_url env) = Inr r \<Longrightarrow>
   \<not> (200 \<le> status_code r \<and> status_code r \<le> 299) \<Longrightarrow>
     fst (get_open_positions c env s) =
       Inl (APICallFailedException (HTTPStatusError (status_code r)))"
  by (auto simp: get_open_positions_def get_t212_client_def client_get_def raise_for_status_def)

text \<open>\<^verbatim>\<open>test_get_open_positions_failed\<close>: the status 400.\<close>

lemma test_get_open_positions_failed:
  "fst (get_open_positions c (test_env (Inr \<lparr>status_code = 400, body = Some (JObj [])\<rparr>)) s) =
     Inl (APICallFailedException (HTTPStatusError 400))"
  by (simp add: get_open_positions_def get_t212_client_def client_get_def raise_for_status_def
      test_env_def)

text \<open>
  Claim C1, at the failing input.  When the GET itself fails with a transport error, the
  fetch does not end in \<open>APICallFailedException\<close>: the handler reads the unbound variable
  \<open>response\<close> and the fetch ends in \<open>UnboundLocalError\<close>.
\<close>

theorem transport_failure_unbound_response:
  "fst (get_open_positions c (env\<lparr>http_get := \<lambda>key url. Inl (TransportError m)\<rparr>) s) =
     Inl (UnboundLocalError ''response'' (TransportError m))"
  by (simp add: get_open_positions_def get_t212_client_def client_get_def)

text \<open>
  Claim C9.  Every call of \<open>get_open_positions\<close>, whatever the outcome of the GET and of
  the validation, adds to the events of the network client exactly the opening of one
  client followed by its closing.
\<close>

theorem client_opened_and_closed_once:
  "filter is_client_event (trace (snd (get_open_positions c env s))) =
     filter is_client_event (trace s) @ [Client_open (t212_api_key env), Client_close]"
  by (simp add: get_open_positions_def get_t212_client_def client_get_def emit_def
      split: sum.splits prod.splits)

subsection \<open>The run\<close>

text \<open>A failed fetch ends the run with its exception, and nothing is written.\<close>

lemma main_no_write_on_failed_fetch:
  "fst (get_open_positions c env s) = Inl e \<Longrightarrow>
     fst (main c env s) = Inl e \<and>
     filter is_write (trace (snd (main c env s))) = filter is_write (trace s)"
  by (auto simp: main_def get_open_positions_def get_t212_client_def client_get_def emit_def
      split: sum.splits prod.splits if_splits)

lemma to_points_eq:
  "to_points env t ps s = (map (\<lambda>p. fst (to_point env p (Some t) s)) ps, s)"
  by (induction ps) (simp_all add: to_point_explicit)

lemma ticks_push_data_to_influxdb:
  "ticks (snd (push_data_to_influxdb env points bucket s)) = ticks s"
  by (simp add: push_data_to_influxdb_def emit_def split: option.splits)

text \<open>
  Claim C4.  In a run whose fetch returned N positions, the clock is read once, after the
  fetch, and the batch handed to the write is the list of the N points built with that
  one reading: the times of the points are N copies of it.
\<close>

theorem main_one_timestamp:
  assumes "get_open_positions c env s = (Inr ps, s1)"
  shows "main c env s =
           push_data_to_influxdb env
             (map (\<lambda>p. fst (to_point env p (Some (clock env (ticks s1))) s1)) ps)
             (stocks_bucket_name env) (s1\<lparr>ticks := Suc (ticks s1)\<rparr>)
         \<and> map p_time (map (\<lambda>p. fst (to_point env p (Some (clock env (ticks s1))) s1)) ps) =
             replicate (length ps) (Some (clock env (ticks s1)))
         \<and> ticks (snd (main c env s)) = Suc (ticks s1)"
proof -
  have times: "map p_time (map (\<lambda>p. fst (to_point env p (Some t) s1)) ps) =
          replicate (length ps) (Some t)" for t
    by (induction ps) (simp_all add: to_point_explicit)
  have run: "main c env s =
           push_data_to_influxdb env
             (map (\<lambda>p. fst (to_point env p (Some (clock env (ticks s1))) s1)) ps)
             (stocks_bucket_name env) (s1\<lparr>ticks := Suc (ticks s1)\<rparr>)"
    using assms by (simp add: main_def datetime_now_def to_points_eq to_point_explicit)
  show ?thesis
    using times run by (simp add: ticks_push_data_to_influxdb)
qed

theorem main_one_timestamp_witness:
  "get_open_positions test_coercers
     (test_env (Inr \<lparr>status_code = 200, body = Some DEFAULT_RESPONSE_CONTENT\<rparr>)) start =
   (Inr EXPECTED_POSITIONS,
    \<lparr>ticks = 0,
     trace = [Client_open ''NOT_SET'', Http_get ''NOT_SET'', Client_close,
              Log_info ''API call to Trading212 successful.'']\<rparr>)
   \<and> length EXPECTED_POSITIONS = 2
   \<and> map p_time
        (map (\<lambda>p. fst (to_point
                (test_env (Inr \<lparr>status_code = 200, body = Some DEFAULT_RESPONSE_CONTENT\<rparr>)) p
                (Some (Datetime 1741860610000000 (Some 0)))
                \<lparr>ticks = 0,
                 trace = [Client_open ''NOT_SET'', Http_get ''NOT_SET'', Client_close,
                          Log_info ''API call to Trading212 successful.'']\<rparr>))
           EXPECTED_POSITIONS) =
      [Some (Datetime 1741860610000000 (Some 0)), Some (Datetime 1741860610000000 (Some 0))]
   \<and> ticks (snd (main test_coercers
        (test_env (Inr \<lparr>status_code = 200, body = Some DEFAULT_RESPONSE_CONTENT\<rparr>)) start)) = 1"
proof -
  have c: "clock (test_env r) 0 = Datetime 1741860610000000 (Some 0)" for r
    by (simp add: test_env_def)
  have l: "length EXPECTED_POSITIONS = Suc (Suc 0)"
    by (simp add: EXPECTED_POSITIONS_def)
  show ?thesis
    using main_one_timestamp [OF fetch_DEFAULT_RESPONSE_CONTENT] fetch_DEFAULT_RESPONSE_CONTENT
    by (simp add: c l ticks_push_data_to_influxdb)
qed

end
